theory Spec2Isabelle
  imports Complex_Main
begin

section \<open>JavaScript numbers\<close>

text \<open>
  A JavaScript number is an IEEE 754 binary64 value. \<open>Finite v\<close> is the finite number of
  value \<open>v\<close>; the arithmetic below only ever produces binary64 values. The sign of a
  zero is not modelled: the program never observes it (it does not divide by a computed
  zero: the two divisions of the sketch are guarded by \<open>> 0\<close>, and the quotient by a
  zero viewport dimension is written as \<open>null\<close> whatever its sign).
\<close>

datatype number = NaN | NegInfinity | Finite real | Infinity

text \<open>
  Rounding to nearest, ties to even. The exponent of a real is that of its binary64
  binade, \<open>-1022\<close> in the subnormal range; \<open>ulp\<close> is the spacing of the binary64 values
  there (53 significant bits).
\<close>

definition exponent :: "real \<Rightarrow> int" where
  "exponent v = max \<lfloor>log 2 \<bar>v\<bar>\<rfloor> (- 1022)"

definition ulp :: "real \<Rightarrow> real" where
  "ulp v = 2 powi (exponent v - 52)"

definition nearest_even :: "real \<Rightarrow> int" where
  "nearest_even t =
     (let f = \<lfloor>t\<rfloor>
      in if t - of_int f < 1 / 2 then f
         else if 1 / 2 < t - of_int f then f + 1
         else if even f then f else f + 1)"

text \<open>
  The binary64 value of an exact result: the nearest multiple of \<open>ulp\<close>, and an infinity
  when that has magnitude \<open>2 ^ 1024\<close> or more.
\<close>

definition fl :: "real \<Rightarrow> number" where
  "fl v =
     (if v = 0 then Finite 0
      else
        let r = of_int (nearest_even (v / ulp v)) * ulp v
        in if 2 ^ 1024 \<le> r then Infinity
           else if r \<le> - (2 ^ 1024) then NegInfinity
           else Finite r)"

text \<open>A real is a binary64 value when rounding leaves it as it is.\<close>

definition binary64 :: "real \<Rightarrow> bool" where
  "binary64 v = (fl v = Finite v)"

fun js_neg :: "number \<Rightarrow> number" where
  "js_neg NaN = NaN"
| "js_neg Infinity = NegInfinity"
| "js_neg NegInfinity = Infinity"
| "js_neg (Finite a) = Finite (- a)"

text \<open>The operators \<open>+\<close>, \<open>-\<close>, \<open>*\<close>, \<open>/\<close> and \<open><\<close> on numbers.\<close>

fun js_add :: "number \<Rightarrow> number \<Rightarrow> number" where
  "js_add (Finite a) (Finite b) = fl (a + b)"
| "js_add NaN _ = NaN"
| "js_add _ NaN = NaN"
| "js_add Infinity NegInfinity = NaN"
| "js_add NegInfinity Infinity = NaN"
| "js_add Infinity _ = Infinity"
| "js_add _ Infinity = Infinity"
| "js_add NegInfinity _ = NegInfinity"
| "js_add _ NegInfinity = NegInfinity"

definition js_sub :: "number \<Rightarrow> number \<Rightarrow> number" where
  "js_sub a b = js_add a (js_neg b)"

fun js_mul :: "number \<Rightarrow> number \<Rightarrow> number" where
  "js_mul (Finite a) (Finite b) = fl (a * b)"
| "js_mul NaN _ = NaN"
| "js_mul _ NaN = NaN"
| "js_mul (Finite a) i = (if a = 0 then NaN else if 0 < a then i else js_neg i)"
| "js_mul i (Finite b) = (if b = 0 then NaN else if 0 < b then i else js_neg i)"
| "js_mul Infinity i = i"
| "js_mul NegInfinity i = js_neg i"

fun js_div :: "number \<Rightarrow> number \<Rightarrow> number" where
  "js_div (Finite a) (Finite b) =
     (if b = 0 then (if a = 0 then NaN else if 0 < a then Infinity else NegInfinity)
      else fl (a / b))"
| "js_div NaN _ = NaN"
| "js_div _ NaN = NaN"
| "js_div (Finite a) _ = Finite 0"
| "js_div i (Finite b) = (if 0 \<le> b then i else js_neg i)"
| "js_div _ _ = NaN"

fun js_lt :: "number \<Rightarrow> number \<Rightarrow> bool" where
  "js_lt (Finite a) (Finite b) = (a < b)"
| "js_lt NaN _ = False"
| "js_lt _ NaN = False"
| "js_lt _ NegInfinity = False"
| "js_lt NegInfinity _ = True"
| "js_lt Infinity _ = False"
| "js_lt _ Infinity = True"

text \<open>
  \<open>Math.min\<close>, \<open>Math.max\<close> and \<open>Math.round\<close> (halves go up; the result is exact).
  \<open>Math.sqrt\<close> is the correctly rounded square root and \<open>Math.pow(v, 2)\<close> the correctly
  rounded square, as the engines compute them.
\<close>

definition Math_min :: "number \<Rightarrow> number \<Rightarrow> number" where
  "Math_min a b = (if a = NaN \<or> b = NaN then NaN else if js_lt b a then b else a)"

definition Math_max :: "number \<Rightarrow> number \<Rightarrow> number" where
  "Math_max a b = (if a = NaN \<or> b = NaN then NaN else if js_lt a b then b else a)"

fun Math_round :: "number \<Rightarrow> number" where
  "Math_round (Finite a) = Finite (of_int \<lfloor>a + 1 / 2\<rfloor>)"
| "Math_round v = v"

fun Math_sqrt :: "number \<Rightarrow> number" where
  "Math_sqrt (Finite a) = (if a < 0 then NaN else fl (sqrt a))"
| "Math_sqrt Infinity = Infinity"
| "Math_sqrt _ = NaN"

definition Math_pow_2 :: "number \<Rightarrow> number" where
  "Math_pow_2 v = js_mul v v"

section \<open>Data model (types.ts)\<close>

text \<open>
  The coordinates of a point are finite numbers (positions on the canvas); they are
  binary64 values, which the statements that need it assume as \<open>binary64\<close>.

  \<open>Star extends Point\<close> is record extension: a \<open>star\<close> is a \<open>'a point_scheme\<close>, so a
  function written for \<open>Point[]\<close> takes a list of stars as it is, fields and all, as the
  structural typing of the source does.
\<close>

record point =
  x :: real
  y :: real

record star = point +
  id_star :: nat
  size_star :: real
  alpha :: real
  isSelected :: bool

record ConstellationMetadata =
  name :: string
  horoscope :: string
  visualPrompt :: string

datatype AppPhase =
  INTRO | SELECTING | CONNECTING | GENERATING_METADATA | GENERATING_IMAGE | RESULT | EDITING

section \<open>StarCanvas.tsx: selection and the connection effect\<close>

definition TOTAL_STARS :: nat where
  "TOTAL_STARS = 80"

definition CONNECTION_SPEED :: nat where
  "CONNECTION_SPEED = 200"

text \<open>The three \<open>useState\<close> cells of the component.\<close>

record canvas_state =
  stars :: "star list"
  selectedStars :: "star list"
  isAnimatingConnection :: bool

text \<open>\<open>getBoundingClientRect()\<close> of the canvas element; only \<open>left\<close> and \<open>top\<close> are read.\<close>

record DOMRect =
  left_rect :: real
  top_rect :: real

text \<open>
  The body of \<open>stars.forEach\<close> in \<open>handleCanvasInteraction\<close>: the accumulator is the
  pair of the two locals \<open>closestStar\<close> and \<open>minDist\<close>; \<open>px\<close> and \<open>py\<close> are the locals
  \<open>x\<close> and \<open>y\<close> of the handler.
\<close>

definition closer ::
  "number \<Rightarrow> number \<Rightarrow> star \<Rightarrow> star option \<times> number \<Rightarrow> star option \<times> number" where
  "closer px py s acc =
     (case acc of (closestStar, minDist) \<Rightarrow>
        let dist = Math_sqrt (js_add (Math_pow_2 (js_sub (Finite (x s)) px))
                                     (Math_pow_2 (js_sub (Finite (y s)) py)))
        in if js_lt dist minDist then (Some s, dist) else (closestStar, minDist))"

text \<open>
  \<open>handleCanvasInteraction\<close>. Arguments: the prop \<open>isActive\<close>, \<open>canvasRef.current\<close>
  (\<open>None\<close> when the ref is null, else the element's rectangle), the event's
  \<open>clientX\<close>/\<open>clientY\<close>, and the state the callback closes over. The result is the
  state after \<open>setSelectedStars\<close> and the list of \<open>onProgress\<close> calls made.
\<close>

definition handleCanvasInteraction ::
  "bool \<Rightarrow> DOMRect option \<Rightarrow> real \<Rightarrow> real \<Rightarrow> canvas_state \<Rightarrow> canvas_state \<times> nat list" where
  "handleCanvasInteraction isActive canvas clientX clientY st =
     (if \<not> isActive \<or> length (selectedStars st) \<ge> 5 then (st, [])
      else case canvas of
        None \<Rightarrow> (st, [])
      | Some rect \<Rightarrow>
          let px = js_sub (Finite clientX) (Finite (left_rect rect));
              py = js_sub (Finite clientY) (Finite (top_rect rect));
              found = fold (closer px py) (stars st) (None, Finite 50)
          in (case fst found of
                None \<Rightarrow> (st, [])
              | Some s \<Rightarrow>
                  let newSelection = selectedStars st @ [s]
                  in (st\<lparr>selectedStars := newSelection\<rparr>, [length newSelection])))"

text \<open>
  The connection effect. The result is the state after \<open>setIsAnimatingConnection\<close> and
  the list of \<open>setTimeout\<close> calls made, each as (delay in ms, the argument the scheduled
  closure passes to \<open>onStarsSelected\<close>).
\<close>

definition connectionEffect :: "canvas_state \<Rightarrow> canvas_state \<times> (nat \<times> star list) list" where
  "connectionEffect st =
     (if length (selectedStars st) = 5 \<and> \<not> isAnimatingConnection st then
        let delay = length (selectedStars st) * CONNECTION_SPEED + 500
        in (st\<lparr>isAnimatingConnection := True\<rparr>, [(delay, selectedStars st)])
      else (st, []))"

text \<open>
  What can happen to a mounted StarCanvas: a pointer-down (with the value of the prop
  \<open>isActive\<close> and of the canvas ref at that moment), a run of the connection effect
  (React runs it after any render in which a dependency changed; the model allows a run
  at any moment), and \<open>initStars\<close> on mount or resize, whose random draw is an input.
\<close>

datatype canvas_event =
  PointerDown bool "DOMRect option" real real
| EffectRun
| InitStars "star list"

record canvas_world =
  state :: canvas_state
  progress :: "nat list"
  timeouts :: "(nat \<times> star list) list"

definition mounted :: canvas_world where
  "mounted =
     \<lparr>state = \<lparr>stars = [], selectedStars = [], isAnimatingConnection = False\<rparr>,
      progress = [], timeouts = []\<rparr>"

fun canvas_step :: "canvas_world \<Rightarrow> canvas_event \<Rightarrow> canvas_world" where
  "canvas_step w (PointerDown isActive canvas clientX clientY) =
     (case handleCanvasInteraction isActive canvas clientX clientY (state w) of
        (st', reports) \<Rightarrow> w\<lparr>state := st', progress := progress w @ reports\<rparr>)"
| "canvas_step w EffectRun =
     (case connectionEffect (state w) of
        (st', scheduled) \<Rightarrow> w\<lparr>state := st', timeouts := timeouts w @ scheduled\<rparr>)"
| "canvas_step w (InitStars newStars) = w\<lparr>state := (state w)\<lparr>stars := newStars\<rparr>\<rparr>"

definition canvas_run :: "canvas_world \<Rightarrow> canvas_event list \<Rightarrow> canvas_world" where
  "canvas_run w evs = foldl canvas_step w evs"

section \<open>geminiService.ts\<close>

text \<open>
  What a rejected promise or a \<open>throw\<close> carries. \<open>ApiError\<close> is any rejection of
  \<open>ai.models.generateContent\<close>; \<open>TypeError\<close> is a property read on \<open>undefined\<close> or
  \<open>null\<close>.
\<close>

datatype error =
  ApiError
| NoTextReturned
| SyntaxError
| TypeError
| NoImageData
| NoEditedImage

subsection \<open>generateConstellationMetadata\<close>

text \<open>
  One coordinate of \<open>normalizedStars\<close>: \<open>Math.round((v / dimension) * 100)\<close>. With a
  zero dimension the result is infinite or NaN, which \<open>JSON.stringify\<close> writes as
  \<open>null\<close>.
\<close>

definition normalizeCoord :: "real \<Rightarrow> real \<Rightarrow> number" where
  "normalizeCoord v dimension =
     Math_round (js_mul (js_div (Finite v) (Finite dimension)) (Finite 100))"

text \<open>An element \<open>{x: ..., y: ...}\<close> of \<open>normalizedStars\<close> is a pair.\<close>

definition normalizeStars ::
  "'a point_scheme list \<Rightarrow> real \<Rightarrow> real \<Rightarrow> (number \<times> number) list" where
  "normalizeStars sts canvasWidth canvasHeight =
     map (\<lambda>s. (normalizeCoord (x s) canvasWidth, normalizeCoord (y s) canvasHeight)) sts"

text \<open>
  The request sent to the text model: the model name and the coordinates that
  \<open>JSON.stringify(normalizedStars)\<close> writes into the prompt (the rest of the prompt and
  of the configuration is constant text).
\<close>

record metadata_request =
  model :: string
  coordinates :: "(number \<times> number) list"

definition fallbackMetadata :: ConstellationMetadata where
  "fallbackMetadata =
     \<lparr>name = ''The Unseen Path'',
      horoscope = ''Your 2026 is a canvas waiting for your own light to guide the way.'',
      visualPrompt = ''A glowing mystic constellation on a dark blue card, gold filigree borders, holographic style.''\<rparr>"

text \<open>
  \<open>generateConstellationMetadata\<close>. The two collaborators are parameters:
  \<open>generateContent\<close> is the remote call (\<open>Inl\<close> when its promise rejects, else the
  value of \<open>response.text\<close>, \<open>None\<close> when undefined); \<open>JSON_parse\<close> is \<open>JSON.parse\<close>
  followed by the unchecked cast: \<open>Inl\<close> when it throws, \<open>Inr None\<close> when the text
  parses to \<open>null\<close> (as the text \<open>null\<close> does), and otherwise the parsed value read as
  a ConstellationMetadata. The result is \<open>Inl\<close> when the returned promise rejects and
  \<open>Inr None\<close> when it resolves to \<open>null\<close>.
\<close>

definition generateConstellationMetadata ::
  "(metadata_request \<Rightarrow> error + string option) \<Rightarrow>
   (string \<Rightarrow> error + ConstellationMetadata option) \<Rightarrow>
   'a point_scheme list \<Rightarrow> real \<Rightarrow> real \<Rightarrow> error + ConstellationMetadata option" where
  "generateConstellationMetadata generateContent JSON_parse sts canvasWidth canvasHeight =
     (let normalizedStars = normalizeStars sts canvasWidth canvasHeight;
          tried =
            (case generateContent
                    \<lparr>model = ''gemini-3-flash-preview'', coordinates = normalizedStars\<rparr> of
               Inl e \<Rightarrow> Inl e
             | Inr None \<Rightarrow> Inl NoTextReturned
             | Inr (Some txt) \<Rightarrow> if txt = [] then Inl NoTextReturned else JSON_parse txt)
      in case tried of
           Inl e \<Rightarrow> Inr (Some fallbackMetadata)
         | Inr metadata \<Rightarrow> Inr metadata)"

subsection \<open>createConstellationSketch\<close>

text \<open>The calls made on the 2D context, in order, with their arguments.\<close>

datatype ctx_call =
  fillStyle string
| fillRect number number number number
| strokeStyle string
| lineWidth number
| lineCap string
| lineJoin string
| beginPath
| moveTo number number
| lineTo number number
| stroke
| arc number number number number number
| fill

text \<open>
  The returned string: \<open>''\<close>, or the PNG encoding of a canvas of the given width and
  height on which the given calls were made.
\<close>

datatype sketch =
  EmptyString
| PNG nat nat "ctx_call list"

text \<open>Whether \<open>document\<close> is defined, and whether \<open>getContext('2d')\<close> returns a context.\<close>

record dom_env =
  has_document :: bool
  has_context2d :: bool

text \<open>
  The bounding-box loop; the four accumulators start at \<open>Infinity\<close> and \<open>-Infinity\<close>.
\<close>

definition boundingBox :: "'a point_scheme list \<Rightarrow> number \<times> number \<times> number \<times> number" where
  "boundingBox sts =
     fold (\<lambda>p (minX, maxX, minY, maxY).
             (Math_min minX (Finite (x p)), Math_max maxX (Finite (x p)),
              Math_min minY (Finite (y p)), Math_max maxY (Finite (y p))))
          sts (Infinity, NegInfinity, Infinity, NegInfinity)"

definition canvas_width :: nat where
  "canvas_width = 768"

definition canvas_height :: nat where
  "canvas_height = 1024"

text \<open>The literals \<open>0.6\<close>, \<open>0.4\<close> and \<open>0.35\<close> denote the nearest binary64 values.\<close>

definition targetW :: number where
  "targetW = js_mul (Finite (real canvas_width)) (fl 0.6)"

definition targetH :: number where
  "targetH = js_mul (Finite (real canvas_height)) (fl 0.4)"

definition targetCenterX :: number where
  "targetCenterX = js_div (Finite (real canvas_width)) (Finite 2)"

definition targetCenterY :: number where
  "targetCenterY = js_mul (Finite (real canvas_height)) (fl 0.35)"

text \<open>The local \<open>scale\<close>, from the locals \<open>width\<close> and \<open>height\<close>.\<close>

definition scaleOf :: "number \<Rightarrow> number \<Rightarrow> number" where
  "scaleOf width height =
     (let scaleX = (if js_lt (Finite 0) width then js_div targetW width else Finite 1);
          scaleY = (if js_lt (Finite 0) height then js_div targetH height else Finite 1)
      in Math_min scaleX scaleY)"

text \<open>
  \<open>(drawX, drawY)\<close> of a point; the same four lines occur in the line loop and in the
  node loop.
\<close>

definition drawXY ::
  "number \<Rightarrow> number \<Rightarrow> number \<Rightarrow> number \<Rightarrow> number \<Rightarrow> 'a point_scheme \<Rightarrow> number \<times> number" where
  "drawXY minX minY width height scale p =
     (let relX = js_sub (Finite (x p)) (js_add minX (js_div width (Finite 2)));
          relY = js_sub (Finite (y p)) (js_add minY (js_div height (Finite 2)))
      in (js_add targetCenterX (js_mul relX scale), js_add targetCenterY (js_mul relY scale)))"

fun drawLines :: "(number \<times> number) list \<Rightarrow> ctx_call list" where
  "drawLines [] = []"
| "drawLines (d # ds) = moveTo (fst d) (snd d) # map (\<lambda>d. lineTo (fst d) (snd d)) ds"

text \<open>\<open>Math.PI\<close> is the binary64 value nearest to \<open>pi\<close>.\<close>

definition drawNodes :: "(number \<times> number) list \<Rightarrow> ctx_call list" where
  "drawNodes ds =
     concat (map (\<lambda>d. [beginPath,
                        arc (fst d) (snd d) (Finite 20) (Finite 0) (js_mul (fl pi) (Finite 2)),
                        fill]) ds)"

definition background :: "ctx_call list" where
  "background =
     [fillStyle ''#000000'',
      fillRect (Finite 0) (Finite 0) (Finite (real canvas_width)) (Finite (real canvas_height))]"

definition createConstellationSketch :: "dom_env \<Rightarrow> 'a point_scheme list \<Rightarrow> sketch" where
  "createConstellationSketch env sts =
     (if \<not> has_document env then EmptyString
      else if \<not> has_context2d env then EmptyString
      else if length sts = 0 then PNG canvas_width canvas_height background
      else case boundingBox sts of
        (minX, maxX, minY, maxY) \<Rightarrow>
          let width = js_sub maxX minX;
              height = js_sub maxY minY;
              scale = scaleOf width height;
              drawn = map (drawXY minX minY width height scale) sts
          in PNG canvas_width canvas_height
               (background
                @ [strokeStyle ''#ffffff'', lineWidth (Finite 15), lineCap ''round'',
                   lineJoin ''round'', beginPath]
                @ drawLines drawn
                @ [stroke, fillStyle ''#ffffff'']
                @ drawNodes drawn))"

text \<open>
  Reading a sketch back: the calls made on it, and the points at which a path was
  started, continued or a node drawn.
\<close>

fun callsOf :: "sketch \<Rightarrow> ctx_call list" where
  "callsOf EmptyString = []"
| "callsOf (PNG w h cs) = cs"

fun markOf :: "ctx_call \<Rightarrow> (number \<times> number) list" where
  "markOf (moveTo a b) = [(a, b)]"
| "markOf (lineTo a b) = [(a, b)]"
| "markOf (arc a b r s e) = [(a, b)]"
| "markOf _ = []"

definition marks :: "ctx_call list \<Rightarrow> (number \<times> number) list" where
  "marks cs = concat (map markOf cs)"

subsection \<open>generateCardImage and editCardImage\<close>

text \<open>
  A part of a response: \<open>inlineData.data\<close> (\<open>None\<close> when \<open>inlineData\<close> or its \<open>data\<close>
  is missing) and \<open>text\<close>. A candidate is its \<open>content\<close> (\<open>None\<close> when undefined),
  which is its \<open>parts\<close> (\<open>None\<close> when undefined). A response is its \<open>candidates\<close>.
\<close>

record part =
  inlineData :: "string option"
  text_part :: "string option"

type_synonym candidate = "part list option option"

type_synonym image_response = "candidate list option"

text \<open>A string is truthy when it is defined and not empty.\<close>

definition truthy :: "string option \<Rightarrow> bool" where
  "truthy v = (case v of None \<Rightarrow> False | Some t \<Rightarrow> t \<noteq> [])"

text \<open>
  The loop over \<open>response.candidates[0].content.parts\<close>, shared by both functions; the
  error thrown when it finds nothing is the argument. An empty \<open>candidates\<close> array, or
  a first candidate without \<open>content\<close>, throws a TypeError at the property read.
\<close>

definition extractImage :: "error \<Rightarrow> image_response \<Rightarrow> error + string" where
  "extractImage notFound response =
     (case response of
        None \<Rightarrow> Inl notFound
      | Some [] \<Rightarrow> Inl TypeError
      | Some (None # _) \<Rightarrow> Inl TypeError
      | Some (Some None # _) \<Rightarrow> Inl notFound
      | Some (Some (Some parts) # _) \<Rightarrow>
          (case find (\<lambda>p. truthy (inlineData p)) parts of
             Some p \<Rightarrow> Inr (the (inlineData p))
           | None \<Rightarrow> Inl notFound))"

record image_request =
  prompt_text :: string
  image_data :: sketch

definition generateCardImage ::
  "(image_request \<Rightarrow> error + image_response) \<Rightarrow> dom_env \<Rightarrow> string \<Rightarrow> 'a point_scheme list \<Rightarrow>
   error + string" where
  "generateCardImage generateContent env prompt sts =
     (let sketchBase64 = createConstellationSketch env sts
      in case generateContent \<lparr>prompt_text = prompt, image_data = sketchBase64\<rparr> of
           Inl e \<Rightarrow> Inl e
         | Inr response \<Rightarrow> extractImage NoImageData response)"

record edit_request =
  instruction_text :: string
  edit_image :: string

definition editCardImage ::
  "(edit_request \<Rightarrow> error + image_response) \<Rightarrow> string \<Rightarrow> string \<Rightarrow> error + string" where
  "editCardImage generateContent base64Image editInstruction =
     (case generateContent \<lparr>instruction_text = editInstruction, edit_image = base64Image\<rparr> of
        Inl e \<Rightarrow> Inl e
      | Inr response \<Rightarrow> extractImage NoEditedImage response)"

section \<open>App.tsx: the phase state machine\<close>

text \<open>
  The \<open>useState\<close> cells of App. \<open>selectedStars\<close> is declared \<open>Point[]\<close> and holds
  whatever list the callback was given, hence the type parameter.
\<close>

record 'a app_state =
  phase :: AppPhase
  selectedStars_app :: "'a point_scheme list"
  starCount :: nat
  constellationData :: "ConstellationMetadata option"
  generatedImage :: "string option"
  canvasKey :: nat

definition initial_app :: "'a app_state" where
  "initial_app =
     \<lparr>phase = INTRO, selectedStars_app = [], starCount = 0, constellationData = None,
      generatedImage = None, canvasKey = 0\<rparr>"

definition startJourney :: "'a app_state \<Rightarrow> 'a app_state" where
  "startJourney st =
     st\<lparr>phase := SELECTING, selectedStars_app := [], starCount := 0,
        constellationData := None, generatedImage := None, canvasKey := canvasKey st + 1\<rparr>"

definition handleStarProgress :: "nat \<Rightarrow> 'a app_state \<Rightarrow> 'a app_state" where
  "handleStarProgress count st = st\<lparr>starCount := count\<rparr>"

definition cloudy :: string where
  "cloudy = ''The stars are cloudy tonight. Please try gazing again.''"

definition resisted :: string where
  "resisted = ''The magic weave resisted the change. Try a different instruction.''"

text \<open>
  \<open>handleStarsSelected\<close>. The two imported services are parameters (\<open>Inl\<close> when the
  awaited promise rejects; the metadata promise may resolve to \<open>null\<close>, which is
  \<open>Inr None\<close>); \<open>innerWidth\<close> and \<open>innerHeight\<close> are those of \<open>window\<close>. Reading
  \<open>metadata.visualPrompt\<close> of \<open>null\<close> throws inside the \<open>try\<close>, before the image
  service is called. The result is the list of states the component goes through, one
  per group of \<open>setState\<close> calls between two \<open>await\<close>s, the last being the state when
  the handler has finished, and the list of \<open>alert\<close> messages shown.
\<close>

definition handleStarsSelected ::
  "('a point_scheme list \<Rightarrow> real \<Rightarrow> real \<Rightarrow> error + ConstellationMetadata option) \<Rightarrow>
   (string \<Rightarrow> 'a point_scheme list \<Rightarrow> error + string) \<Rightarrow> real \<Rightarrow> real \<Rightarrow>
   'a point_scheme list \<Rightarrow> 'a app_state \<Rightarrow> 'a app_state list \<times> string list" where
  "handleStarsSelected generateMetadata generateImage innerWidth innerHeight sts st =
     (let st1 = st\<lparr>selectedStars_app := sts, phase := GENERATING_METADATA\<rparr>
      in case generateMetadata sts innerWidth innerHeight of
           Inl e \<Rightarrow> ([st1, st1\<lparr>phase := INTRO\<rparr>], [cloudy])
         | Inr metadata \<Rightarrow>
             let st2 = st1\<lparr>constellationData := metadata, phase := GENERATING_IMAGE\<rparr>
             in (case metadata of
                   None \<Rightarrow> ([st1, st2, st2\<lparr>phase := INTRO\<rparr>], [cloudy])
                 | Some m \<Rightarrow>
                     (case generateImage (visualPrompt m) sts of
                        Inl e \<Rightarrow> ([st1, st2, st2\<lparr>phase := INTRO\<rparr>], [cloudy])
                      | Inr imageBase64 \<Rightarrow>
                          ([st1, st2,
                            st2\<lparr>generatedImage := Some imageBase64, phase := RESULT\<rparr>],
                           []))))"

text \<open>\<open>handleEdit\<close>, with the imported \<open>editCardImage\<close> as a parameter; results as above.\<close>

definition handleEdit ::
  "(string \<Rightarrow> string \<Rightarrow> error + string) \<Rightarrow> string \<Rightarrow> 'a app_state \<Rightarrow>
   'a app_state list \<times> string list" where
  "handleEdit editImage instruction st =
     (if \<not> truthy (generatedImage st) then ([st], [])
      else
        let previousPhase = phase st;
            st1 = st\<lparr>phase := EDITING\<rparr>
        in case editImage (the (generatedImage st)) instruction of
             Inr newImageBase64 \<Rightarrow>
               ([st1, st1\<lparr>generatedImage := Some newImageBase64, phase := RESULT\<rparr>], [])
           | Inl e \<Rightarrow> ([st1, st1\<lparr>phase := previousPhase\<rparr>], [resisted]))"

text \<open>The condition under which App renders the SparkCard (image and metadata).\<close>

definition showsCard :: "'a app_state \<Rightarrow> bool" where
  "showsCard st =
     ((phase st = RESULT \<or> phase st = EDITING) \<and> constellationData st \<noteq> None
      \<and> truthy (generatedImage st))"

text \<open>The condition under which the canvas is interactive: the prop \<open>isActive\<close>.\<close>

definition isActive_prop :: "'a app_state \<Rightarrow> bool" where
  "isActive_prop st = (phase st = SELECTING)"

section \<open>Auxiliary notions for the statements\<close>


text \<open>The distance as the handler computes it, the local \<open>dist\<close>.\<close>

definition computedDistance :: "number \<Rightarrow> number \<Rightarrow> 'a point_scheme \<Rightarrow> number" where
  "computedDistance px py s =
     Math_sqrt (js_add (Math_pow_2 (js_sub (Finite (x s)) px))
                       (Math_pow_2 (js_sub (Finite (y s)) py)))"

text \<open>
  The invariant of a mounted StarCanvas: at most five selections, and the timer exists
  exactly when \<open>isAnimatingConnection\<close> is set, in which case it is the only one and
  carries the five selected stars.
\<close>

definition canvas_inv :: "canvas_world \<Rightarrow> bool" where
  "canvas_inv w =
     (length (selectedStars (state w)) \<le> 5
      \<and> (if isAnimatingConnection (state w)
         then length (selectedStars (state w)) = 5
              \<and> timeouts w = [(1500, selectedStars (state w))]
         else timeouts w = []))"

text \<open>
  The locals \<open>width\<close> and \<open>height\<close> of the sketch as functions of the input points.
\<close>

definition widthOf :: "'a point_scheme list \<Rightarrow> number" where
  "widthOf sts = js_sub (Finite (Max (x ` set sts))) (Finite (Min (x ` set sts)))"

definition heightOf :: "'a point_scheme list \<Rightarrow> number" where
  "heightOf sts = js_sub (Finite (Max (y ` set sts))) (Finite (Min (y ` set sts)))"

text \<open>
  Whether a drawn point lies in the target region: 60% of the width 768 around the
  centre 768 / 2, and 40% of the height 1024 around the centre 1024 * 0.35.
\<close>

fun inTarget :: "number \<times> number \<Rightarrow> bool" where
  "inTarget (Finite dx, Finite dy) =
     (\<bar>dx - 768 / 2\<bar> \<le> (0.6 * 768) / 2 \<and> \<bar>dy - 1024 * 0.35\<bar> \<le> (0.4 * 1024) / 2)"
| "inTarget _ = False"

section \<open>Example data\<close>

definition starA :: star where
  "starA = \<lparr>x = 10, y = 10, id_star = 7, size_star = 2, alpha = 1 / 2, isSelected = False\<rparr>"

definition starB :: star where
  "starB = \<lparr>x = 193, y = 254, id_star = 8, size_star = 1, alpha = 1 / 4, isSelected = False\<rparr>"

definition starD :: star where
  "starD = \<lparr>x = 10, y = 200, id_star = 9, size_star = 1, alpha = 1 / 4, isSelected = False\<rparr>"


definition nearP :: point where
  "nearP = \<lparr>x = 1000, y = 1000\<rparr>"

definition nearQ :: point where
  "nearQ = \<lparr>x = 1000 + 1 / 2 ^ 43, y = 1000 + 1 / 2 ^ 43\<rparr>"

definition origin :: DOMRect where
  "origin = \<lparr>left_rect = 0, top_rect = 0\<rparr>"

definition tapA :: canvas_event where
  "tapA = PointerDown True (Some origin) 13 14"

definition fiveA :: canvas_state where
  "fiveA =
     \<lparr>stars = [starA, starB], selectedStars = [starA, starA, starA, starA, starA],
      isAnimatingConnection = False\<rparr>"



definition browser :: dom_env where
  "browser = \<lparr>has_document = True, has_context2d = True\<rparr>"

definition resultState :: "unit app_state" where
  "resultState =
     \<lparr>phase = RESULT, selectedStars_app = [], starCount = 5,
      constellationData = Some fallbackMetadata, generatedImage = Some ''abc'', canvasKey = 1\<rparr>"

text \<open>\<open>JSON.parse\<close> on the one text used below: \<open>null\<close> parses to \<open>null\<close>.\<close>

definition parseNull :: "string \<Rightarrow> error + ConstellationMetadata option" where
  "parseNull txt = (if txt = ''null'' then Inr None else Inl SyntaxError)"

section \<open>Rounding\<close>

lemma powi_powr: "(2::real) powi k = 2 powr of_int k"
  by (simp add: powr_real_of_int')

lemma exponent_eq:
  assumes "2 powi e \<le> \<bar>v\<bar>" "\<bar>v\<bar> < 2 powi (e + 1)" "- 1022 \<le> e"
  shows "exponent v = e"
proof -
  have "0 < (2::real) powi e" by simp
  with assms(1) have pos: "0 < \<bar>v\<bar>" by linarith
  have "\<lfloor>log 2 \<bar>v\<bar>\<rfloor> = e"
    using assms(1,2) pos by (subst floor_log_eq_powr_iff) (simp_all add: powi_powr)
  with assms(3) show ?thesis by (simp add: exponent_def)
qed

lemma exponent_unit: "1 \<le> \<bar>v\<bar> \<Longrightarrow> \<bar>v\<bar> < 2 \<Longrightarrow> exponent v = 0"
  by (rule exponent_eq) simp_all

lemma exponent_half:
  assumes "2 \<le> \<bar>v\<bar>"
  shows "exponent v = exponent (v / 2) + 1"
proof -
  define e where "e = \<lfloor>log 2 \<bar>v / 2\<bar>\<rfloor>"
  have pos: "0 < \<bar>v / 2\<bar>" using assms by simp
  have "0 \<le> log 2 \<bar>v / 2\<bar>" using assms by (simp add: zero_le_log_cancel_iff)
  then have e0: "0 \<le> e" by (simp add: e_def)
  have "2 powr e \<le> \<bar>v / 2\<bar> \<and> \<bar>v / 2\<bar> < 2 powr (e + 1)"
    using floor_log_eq_powr_iff [of "\<bar>v / 2\<bar>" 2 e] pos by (simp add: e_def)
  then have "2 powi (e + 1) \<le> \<bar>v\<bar>" "\<bar>v\<bar> < 2 powi (e + 1 + 1)"
    by (simp_all add: powi_powr powr_add)
  from exponent_eq [OF this] e0 have "exponent v = e + 1" by simp
  moreover have "exponent (v / 2) = e" using e0 by (simp add: exponent_def e_def)
  ultimately show ?thesis by simp
qed

lemma exponent_double:
  assumes "\<bar>v\<bar> < 1" "2 powi (- 1022) \<le> \<bar>v\<bar>"
  shows "exponent v = exponent (v * 2) - 1"
proof -
  define e where "e = \<lfloor>log 2 \<bar>v\<bar>\<rfloor>"
  have "0 < (2::real) powi (- 1022)" by (rule zero_less_power_int) simp
  with assms(2) have pos: "0 < \<bar>v\<bar>" by linarith
  have b: "2 powr e \<le> \<bar>v\<bar> \<and> \<bar>v\<bar> < 2 powr (e + 1)"
    using floor_log_eq_powr_iff [of "\<bar>v\<bar>" 2 e] pos by (simp add: e_def)
  from assms(2) have "(2::real) powr of_int (- 1022) \<le> \<bar>v\<bar>" by (simp only: powi_powr)
  then have "log 2 (2 powr of_int (- 1022)) \<le> log 2 \<bar>v\<bar>"
    using pos by (subst log_le_cancel_iff) simp_all
  then have "- 1022 \<le> log 2 \<bar>v\<bar>" by (simp only: log_powr_cancel)
  then have e0: "- 1022 \<le> e" unfolding e_def by linarith
  from b have "2 powi (e + 1) \<le> \<bar>v * 2\<bar>" "\<bar>v * 2\<bar> < 2 powi (e + 1 + 1)"
    by (simp_all add: powi_powr powr_add abs_mult)
  from exponent_eq [OF this] e0 have "exponent (v * 2) = e + 1" by simp
  moreover have "exponent v = e" using e0 by (simp add: exponent_def e_def)
  ultimately show ?thesis by simp
qed

lemmas fl_eval = fl_def ulp_def nearest_even_def Let_def exponent_unit exponent_half
  exponent_double

lemma nearest_even_near: "\<bar>of_int (nearest_even t) - t\<bar> \<le> 1 / 2"
  unfolding nearest_even_def Let_def by (auto; linarith)

lemma nearest_even_nonneg: "0 \<le> t \<Longrightarrow> 0 \<le> nearest_even t"
  unfolding nearest_even_def Let_def by (auto; linarith)

lemma ulp_pos: "0 < ulp v"
  by (simp add: ulp_def)

lemma exponent_le:
  assumes "v \<noteq> 0" "\<bar>v\<bar> < 2 powi (k + 1)" "- 1022 \<le> k"
  shows "exponent v \<le> k"
proof -
  from assms(1) have pos: "0 < \<bar>v\<bar>" by simp
  from assms(2) have "\<bar>v\<bar> < 2 powr of_int (k + 1)" by (simp only: powi_powr)
  then have "log 2 \<bar>v\<bar> < of_int (k + 1)"
    using pos by (simp add: log_less_iff)
  then have "\<lfloor>log 2 \<bar>v\<bar>\<rfloor> < k + 1" by linarith
  with assms(3) show ?thesis by (simp add: exponent_def)
qed

lemma fl_abs_error:
  assumes "\<bar>v\<bar> < 2 powi (k + 1)" "- 1022 \<le> k" "k \<le> 1022"
  shows "\<exists>r. fl v = Finite r \<and> \<bar>r - v\<bar> \<le> 2 powi (k - 53)"
proof (cases "v = 0")
  case True
  then show ?thesis by (simp add: fl_def)
next
  case False
  define q where "q = ulp v"
  define r where "r = of_int (nearest_even (v / q)) * q"
  have qpos: "0 < q" unfolding q_def by (rule ulp_pos)
  from exponent_le [OF False assms(1,2)] have "exponent v - 52 \<le> k - 52" by simp
  then have "(2::real) powr of_int (exponent v - 52) \<le> 2 powr of_int (k - 52)"
    by (intro powr_mono) simp_all
  then have qle: "q \<le> 2 powi (k - 52)" by (simp only: q_def ulp_def powi_powr)
  have "r - v = (of_int (nearest_even (v / q)) - v / q) * q"
    using qpos by (simp add: r_def algebra_simps)
  then have "\<bar>r - v\<bar> = \<bar>of_int (nearest_even (v / q)) - v / q\<bar> * q"
    using qpos by (simp add: abs_mult)
  also have "\<dots> \<le> (1 / 2) * q"
    using nearest_even_near [of "v / q"] qpos by (intro mult_right_mono) simp_all
  also have "\<dots> \<le> (1 / 2) * 2 powi (k - 52)" using qle by simp
  also have "\<dots> = 2 powi (k - 53)"
    by (simp add: powi_powr powr_diff flip: powr_add) 
  finally have err: "\<bar>r - v\<bar> \<le> 2 powi (k - 53)" .
  have "(2::real) powr of_int (k - 53) \<le> 2 powr of_int (k + 1)"
    by (intro powr_mono) simp_all
  then have "(2::real) powi (k - 53) \<le> 2 powi (k + 1)" by (simp only: powi_powr)
  with err assms(1) have "\<bar>r\<bar> < 2 * 2 powi (k + 1)" by linarith
  moreover have "(2::real) powr of_int (k + 1) \<le> 2 powr of_int 1023"
    using assms(3) by (intro powr_mono) simp_all
  then have "(2::real) powi (k + 1) \<le> 2 powi 1023" by (simp only: powi_powr)
  moreover have "(2::real) powi 1023 = 2 ^ 1023" by (simp add: power_int_def)
  moreover have "2 * (2::real) ^ 1023 = 2 ^ 1024" by simp
  ultimately have "\<bar>r\<bar> < 2 ^ 1024" by linarith
  then have "\<not> 2 ^ 1024 \<le> r" "\<not> r \<le> - (2 ^ 1024)" by linarith+
  with False have "fl v = Finite r" by (simp add: fl_def Let_def r_def q_def)
  with err show ?thesis by blast
qed

lemma fl_nonneg:
  assumes "0 \<le> v"
  shows "fl v = Infinity \<or> (\<exists>r\<ge>0. fl v = Finite r)"
proof (cases "v = 0")
  case True
  then show ?thesis by (simp add: fl_def)
next
  case False
  from assms ulp_pos [of v] have "0 \<le> v / ulp v" by simp
  from nearest_even_nonneg [OF this] ulp_pos [of v]
  have "0 \<le> of_int (nearest_even (v / ulp v)) * ulp v" by simp
  then show ?thesis using False by (auto simp: fl_def Let_def)
qed

section \<open>Order of numbers\<close>





section \<open>The selection handler\<close>

lemma handle_full:
  "length (selectedStars st) \<ge> 5 \<Longrightarrow> handleCanvasInteraction a c cx cy st = (st, [])"
  by (simp add: handleCanvasInteraction_def)

lemma handle_length:
  "length (selectedStars st) \<le> 5 \<Longrightarrow>
   length (selectedStars (fst (handleCanvasInteraction a c cx cy st))) \<le> 5"
  by (auto simp: handleCanvasInteraction_def Let_def split: option.splits)

lemma handle_animating:
  "isAnimatingConnection (fst (handleCanvasInteraction a c cx cy st)) = isAnimatingConnection st"
  by (simp add: handleCanvasInteraction_def Let_def split: option.splits)

lemma closer_pair:
  "closer px py s (c, m) =
     (if js_lt (computedDistance px py s) m then (Some s, computedDistance px py s) else (c, m))"
  by (simp add: closer_def computedDistance_def Let_def)



lemmas js_eval = js_sub_def Math_pow_2_def computedDistance_def Math_min_def Math_max_def


lemma dist_tapA_A:
  "computedDistance (js_sub (Finite 13) (Finite 0)) (js_sub (Finite 14) (Finite 0)) starA
   = Finite 5"
  by (simp add: js_eval starA_def fl_eval)

lemma dist_tapA_B:
  "computedDistance (js_sub (Finite 13) (Finite 0)) (js_sub (Finite 14) (Finite 0)) starB
   = Finite 300"
  by (simp add: js_eval starB_def fl_eval)






lemma effect_selected: "selectedStars (fst (connectionEffect st)) = selectedStars st"
  by (simp add: connectionEffect_def Let_def)

lemma step_length:
  "length (selectedStars (state w)) \<le> 5 \<Longrightarrow>
   length (selectedStars (state (canvas_step w e))) \<le> 5"
proof (cases e)
  case (PointerDown a c cx cy)
  assume "length (selectedStars (state w)) \<le> 5"
  from handle_length [OF this, of a c cx cy] PointerDown show ?thesis
    by (auto split: prod.splits)
next
  case EffectRun
  assume "length (selectedStars (state w)) \<le> 5"
  with EffectRun effect_selected [of "state w"] show ?thesis
    by (auto split: prod.splits)
next
  case (InitStars n)
  assume "length (selectedStars (state w)) \<le> 5"
  with InitStars show ?thesis by simp
qed

lemma run_length:
  "length (selectedStars (state w)) \<le> 5 \<Longrightarrow>
   length (selectedStars (state (canvas_run w evs))) \<le> 5"
  unfolding canvas_run_def
  by (induction evs arbitrary: w) (simp_all add: step_length)

lemma step_full:
  "length (selectedStars (state w)) = 5 \<Longrightarrow>
   selectedStars (state (canvas_step w e)) = selectedStars (state w)
   \<and> progress (canvas_step w e) = progress w"
proof (cases e)
  case (PointerDown a c cx cy)
  assume "length (selectedStars (state w)) = 5"
  with PointerDown show ?thesis by (simp add: handle_full)
next
  case EffectRun
  with effect_selected [of "state w"] show ?thesis
    by (auto split: prod.splits)
next
  case (InitStars n)
  then show ?thesis by simp
qed

lemma run_full:
  "length (selectedStars (state w)) = 5 \<Longrightarrow>
   selectedStars (state (canvas_run w evs)) = selectedStars (state w)
   \<and> progress (canvas_run w evs) = progress w"
  unfolding canvas_run_def
proof (induction evs arbitrary: w)
  case Nil
  then show ?case by simp
next
  case (Cons e evs)
  from step_full [OF Cons.prems, of e]
  have s: "selectedStars (state (canvas_step w e)) = selectedStars (state w)"
    and p: "progress (canvas_step w e) = progress w" by simp_all
  from s Cons.prems have "length (selectedStars (state (canvas_step w e))) = 5" by simp
  from Cons.IH [OF this] s p show ?case by simp
qed

lemma run_append: "canvas_run w (evs @ evs') = canvas_run (canvas_run w evs) evs'"
  by (simp add: canvas_run_def)

lemma tapA_hits:
  "length sel < 5 \<Longrightarrow>
   handleCanvasInteraction True (Some origin) 13 14
     \<lparr>stars = [starA, starB], selectedStars = sel, isAnimatingConnection = b\<rparr>
   = (\<lparr>stars = [starA, starB], selectedStars = sel @ [starA], isAnimatingConnection = b\<rparr>,
      [length sel + 1])"
  using dist_tapA_A dist_tapA_B
  by (simp add: handleCanvasInteraction_def closer_pair origin_def Let_def)

lemma five_taps:
  "canvas_run mounted [InitStars [starA, starB], tapA, tapA, tapA, tapA, tapA]
   = \<lparr>state = fiveA, progress = [1, 2, 3, 4, 5], timeouts = []\<rparr>"
  by (simp add: canvas_run_def mounted_def tapA_def tapA_hits fiveA_def)

text \<open>
  Claim C4. The selection sequence of a mounted canvas never has more than five entries,
  whatever events it receives. Once it has five, a call of the selection handler returns
  the state unchanged and reports no progress, and so any further sequence of events
  leaves the sequence and the progress reports as they were.
\<close>

theorem selection_never_exceeds_five:
  "length (selectedStars (state (canvas_run mounted evs))) \<le> 5
   \<and> (length (selectedStars st) = 5 \<longrightarrow>
        handleCanvasInteraction a c cx cy st = (st, []))
   \<and> (length (selectedStars (state w)) = 5 \<longrightarrow>
        selectedStars (state (canvas_run w evs')) = selectedStars (state w)
        \<and> progress (canvas_run w evs') = progress w)"
proof -
  have "length (selectedStars (state mounted)) \<le> 5" by (simp add: mounted_def)
  from run_length [OF this] show ?thesis
    by (simp add: handle_full run_full)
qed

theorem selection_never_exceeds_five_witness:
  "length (selectedStars fiveA) = 5
   \<and> handleCanvasInteraction True (Some origin) 13 14 fiveA = (fiveA, [])
   \<and> selectedStars (state (canvas_run mounted
         [InitStars [starA, starB], tapA, tapA, tapA, tapA, tapA, tapA, tapA]))
       = [starA, starA, starA, starA, starA]
   \<and> progress (canvas_run mounted
         [InitStars [starA, starB], tapA, tapA, tapA, tapA, tapA, tapA, tapA])
       = [1, 2, 3, 4, 5]"
proof -
  have run:
    "canvas_run mounted [InitStars [starA, starB], tapA, tapA, tapA, tapA, tapA, tapA, tapA]
     = canvas_run \<lparr>state = fiveA, progress = [1, 2, 3, 4, 5], timeouts = []\<rparr> [tapA, tapA]"
    using run_append
      [of mounted "[InitStars [starA, starB], tapA, tapA, tapA, tapA, tapA]" "[tapA, tapA]"]
    by (simp add: five_taps)
  have l: "length (selectedStars fiveA) = 5" by (simp add: fiveA_def)
  from selection_never_exceeds_five
    [of "[]" fiveA True "Some origin" 13 14
        "\<lparr>state = fiveA, progress = [1, 2, 3, 4, 5], timeouts = []\<rparr>" "[tapA, tapA]"] l run
  show ?thesis
    by (simp add: fiveA_def)
qed

section \<open>The connection effect\<close>

lemma mounted_inv: "canvas_inv mounted"
  by (simp add: canvas_inv_def mounted_def)

lemma step_inv: "canvas_inv w \<Longrightarrow> canvas_inv (canvas_step w e)"
proof (cases e)
  case (PointerDown a c cx cy)
  assume inv: "canvas_inv w"
  show ?thesis
  proof (cases "isAnimatingConnection (state w)")
    case True
    with inv have "length (selectedStars (state w)) \<ge> 5" by (simp add: canvas_inv_def)
    from handle_full [OF this] inv PointerDown show ?thesis by simp
  next
    case False
    from inv have "length (selectedStars (state w)) \<le> 5" by (simp add: canvas_inv_def)
    from handle_length [OF this, of a c cx cy] handle_animating [of a c cx cy "state w"]
      False inv PointerDown
    show ?thesis by (auto simp: canvas_inv_def split: prod.splits)
  qed
next
  case EffectRun
  assume "canvas_inv w"
  with EffectRun show ?thesis
    by (auto simp: canvas_inv_def connectionEffect_def CONNECTION_SPEED_def Let_def)
next
  case (InitStars n)
  assume "canvas_inv w"
  with InitStars show ?thesis by (simp add: canvas_inv_def)
qed

lemma run_inv: "canvas_inv w \<Longrightarrow> canvas_inv (canvas_run w evs)"
  unfolding canvas_run_def
  by (induction evs arbitrary: w) (simp_all add: step_inv)

lemma step_timeouts:
  "canvas_inv w \<Longrightarrow> timeouts w \<noteq> [] \<Longrightarrow> timeouts (canvas_step w e) = timeouts w"
proof (cases e)
  case (PointerDown a c cx cy)
  then show ?thesis by (simp split: prod.splits)
next
  case EffectRun
  assume "canvas_inv w" "timeouts w \<noteq> []"
  then have "isAnimatingConnection (state w)"
    by (auto simp: canvas_inv_def split: if_splits)
  with EffectRun show ?thesis by (simp add: connectionEffect_def)
next
  case (InitStars n)
  then show ?thesis by simp
qed

lemma run_timeouts:
  "canvas_inv w \<Longrightarrow> timeouts w \<noteq> [] \<Longrightarrow> timeouts (canvas_run w evs) = timeouts w"
  unfolding canvas_run_def
proof (induction evs arbitrary: w)
  case Nil
  then show ?case by simp
next
  case (Cons e evs)
  from step_timeouts [OF Cons.prems, of e] step_inv [OF Cons.prems(1), of e] Cons.prems(2)
    Cons.IH [of "canvas_step w e"]
  show ?case by simp
qed

text \<open>
  Claim C3, as stated, fails in one point: the argument of the completion callback is
  the list of selected stars itself, so each element still carries its id (here 7).
\<close>

theorem callback_keeps_star_ids:
  "snd (connectionEffect fiveA) = [(1500, selectedStars fiveA)]
   \<and> map id_star (selectedStars fiveA) = [7, 7, 7, 7, 7]"
  by (simp add: connectionEffect_def fiveA_def starA_def CONNECTION_SPEED_def)

text \<open>
  Claim C3, amended. Whatever events a mounted canvas receives, at most one timer is
  ever scheduled; a scheduled timer has delay 1500 ms and passes to the completion
  callback the five selected stars as they are stored (ids included). When the sequence
  has length five, a run of the effect leaves exactly that one timer, with delay
  5 * 200 + 500; and once a timer is scheduled, no later event (a further tap, a
  further run of the effect) schedules another.
\<close>

theorem connection_callback_once:
  "length (timeouts (canvas_run mounted evs)) \<le> 1
   \<and> (\<forall>t\<in>set (timeouts (canvas_run mounted evs)).
         t = (1500, selectedStars (state (canvas_run mounted evs))) \<and> length (snd t) = 5)
   \<and> (length (selectedStars (state (canvas_run mounted evs))) = 5 \<longrightarrow>
         timeouts (canvas_run mounted (evs @ [EffectRun]))
         = [(5 * 200 + 500, selectedStars (state (canvas_run mounted evs)))])
   \<and> (timeouts (canvas_run mounted evs) \<noteq> [] \<longrightarrow>
         timeouts (canvas_run mounted (evs @ evs')) = timeouts (canvas_run mounted evs))"
proof -
  define w where "w = canvas_run mounted evs"
  have inv: "canvas_inv w" unfolding w_def by (rule run_inv [OF mounted_inv])
  then have one: "length (timeouts w) \<le> 1"
    and what: "\<forall>t\<in>set (timeouts w). t = (1500, selectedStars (state w)) \<and> length (snd t) = 5"
    by (auto simp: canvas_inv_def split: if_splits)
  have fire: "timeouts (canvas_run w [EffectRun]) = [(5 * 200 + 500, selectedStars (state w))]"
    if "length (selectedStars (state w)) = 5"
    using inv that
    by (auto simp: canvas_run_def canvas_inv_def connectionEffect_def CONNECTION_SPEED_def
        Let_def split: if_splits)
  have keep: "timeouts (canvas_run w evs') = timeouts w" if "timeouts w \<noteq> []"
    using inv that by (rule run_timeouts)
  from one what fire keep show ?thesis
    unfolding run_append w_def [symmetric] by blast
qed

theorem connection_callback_once_witness:
  "timeouts
     (canvas_run mounted
        [InitStars [starA, starB], tapA, tapA, tapA, tapA, tapA, EffectRun, tapA, EffectRun])
   = [(1500, [starA, starA, starA, starA, starA])]"
  using connection_callback_once
    [of "[InitStars [starA, starB], tapA, tapA, tapA, tapA, tapA]" "[tapA, EffectRun]"]
    connection_callback_once
    [of "[InitStars [starA, starB], tapA, tapA, tapA, tapA, tapA, EffectRun]" "[tapA, EffectRun]"]
  by (simp add: five_taps fiveA_def)

section \<open>The sketch\<close>

lemma fl_not_NaN: "fl v \<noteq> NaN"
  by (simp add: fl_def Let_def)

lemma Math_min_Finite: "Math_min (Finite a) (Finite b) = Finite (min a b)"
  by (simp add: Math_min_def min_def)

lemma Math_max_Finite: "Math_max (Finite a) (Finite b) = Finite (max a b)"
  by (simp add: Math_max_def max_def)

lemma Math_min_Infinity: "Math_min Infinity (Finite v) = Finite v"
  by (simp add: Math_min_def)

lemma Math_max_NegInfinity: "Math_max NegInfinity (Finite v) = Finite v"
  by (simp add: Math_max_def)

lemma Min_insert_min:
  "finite S \<Longrightarrow> Min (insert (min a b) S) = Min (insert a (insert b S))"
  by (cases "S = {}") (simp_all add: min.assoc)

lemma Max_insert_max:
  "finite S \<Longrightarrow> Max (insert (max a b) S) = Max (insert a (insert b S))"
  by (cases "S = {}") (simp_all add: max.assoc)

lemma fold_bbox:
  "fold (\<lambda>p (minX, maxX, minY, maxY).
             (Math_min minX (Finite (x p)), Math_max maxX (Finite (x p)),
              Math_min minY (Finite (y p)), Math_max maxY (Finite (y p))))
        sts (Finite a, Finite b, Finite c, Finite d)
   = (Finite (Min (insert a (x ` set sts))), Finite (Max (insert b (x ` set sts))),
      Finite (Min (insert c (y ` set sts))), Finite (Max (insert d (y ` set sts))))"
proof (induction sts arbitrary: a b c d)
  case Nil
  then show ?case by simp
next
  case (Cons p sts)
  show ?case
    by (simp add: Math_min_Finite Math_max_Finite Cons.IH Min_insert_min Max_insert_max)
qed

lemma boundingBox_eq:
  assumes "sts \<noteq> []"
  shows "boundingBox sts
   = (Finite (Min (x ` set sts)), Finite (Max (x ` set sts)),
      Finite (Min (y ` set sts)), Finite (Max (y ` set sts)))"
proof -
  from assms obtain p ps where sts: "sts = p # ps" by (cases sts) auto
  show ?thesis
    by (simp add: boundingBox_def sts Math_min_Infinity Math_max_NegInfinity fold_bbox)
qed

lemma marks_Nil: "marks [] = []"
  by (simp add: marks_def)

lemma marks_Cons: "marks (c # cs) = markOf c @ marks cs"
  by (simp add: marks_def)

lemma marks_append: "marks (cs @ ds) = marks cs @ marks ds"
  by (simp add: marks_def)

lemma marks_lineTo: "marks (map (\<lambda>d. lineTo (fst d) (snd d)) ds) = ds"
  by (induction ds) (simp_all add: marks_def)

lemma marks_drawLines: "marks (drawLines ds) = ds"
proof (cases ds)
  case Nil
  then show ?thesis by (simp add: marks_def)
next
  case (Cons d ds')
  with marks_lineTo [of ds'] show ?thesis by (simp add: marks_def)
qed

lemma marks_drawNodes: "marks (drawNodes ds) = ds"
  by (induction ds) (simp_all add: marks_def drawNodes_def)

lemma marks_background: "marks background = []"
  by (simp add: marks_def background_def)

lemma sketch_marks:
  assumes "sts \<noteq> []" "has_document env" "has_context2d env"
  shows "createConstellationSketch env sts
           = PNG 768 1024 (callsOf (createConstellationSketch env sts))
     \<and> marks (callsOf (createConstellationSketch env sts))
       = map (drawXY (Finite (Min (x ` set sts))) (Finite (Min (y ` set sts)))
                (widthOf sts) (heightOf sts) (scaleOf (widthOf sts) (heightOf sts)))
             (sts @ sts)"
  using assms
  by (simp add: createConstellationSketch_def boundingBox_eq Let_def marks_append
      marks_drawLines marks_drawNodes marks_background marks_Nil marks_Cons widthOf_def
      heightOf_def canvas_width_def canvas_height_def)

lemma target_values:
  "targetW = Finite (2026619832316723 / 4398046511104)"
  "targetH = Finite (3602879701896397 / 8796093022208)"
  "targetCenterX = Finite 384"
  "targetCenterY = Finite (3152519739159347 / 8796093022208)"
  by (simp_all add: targetW_def targetH_def targetCenterX_def targetCenterY_def
      canvas_width_def canvas_height_def fl_eval)

lemma map_const: "(\<forall>p\<in>set l. f p = c) \<Longrightarrow> map f l = replicate (length l) c"
  by (induction l) simp_all

lemma sub_self: "js_sub (Finite a) (Finite a) = Finite 0"
  by (simp add: js_sub_def fl_def)

lemma fl_zero: "fl 0 = Finite 0"
  by (simp add: fl_def)

lemma half_zero: "js_div (Finite 0) (Finite 2) = Finite 0"
  by (simp add: fl_def)

lemma add_zero: "binary64 a \<Longrightarrow> js_add (Finite a) (Finite 0) = Finite a"
  by (simp add: binary64_def)

lemma mul_zero: "js_mul (Finite 0) (Finite s) = Finite 0"
  by (simp add: fl_def)

lemma centre_plus_zero:
  "js_add targetCenterX (Finite 0) = targetCenterX"
  "js_add targetCenterY (Finite 0) = targetCenterY"
  by (simp_all add: target_values fl_eval)

lemma Math_min_one:
  "q \<noteq> NaN \<Longrightarrow> q \<noteq> NegInfinity \<Longrightarrow> \<exists>s. Math_min (Finite 1) q = Finite s"
  by (cases q) (simp_all add: Math_min_def)

lemma Math_min_one':
  "q \<noteq> NaN \<Longrightarrow> q \<noteq> NegInfinity \<Longrightarrow> \<exists>s. Math_min q (Finite 1) = Finite s"
  by (cases q) (simp_all add: Math_min_def)

lemma ratio_ok:
  assumes "0 < t"
  shows "(if js_lt (Finite 0) (js_sub (Finite b) (Finite a))
          then js_div (Finite t) (js_sub (Finite b) (Finite a)) else Finite 1) \<noteq> NaN
       \<and> (if js_lt (Finite 0) (js_sub (Finite b) (Finite a))
          then js_div (Finite t) (js_sub (Finite b) (Finite a)) else Finite 1) \<noteq> NegInfinity"
proof (cases "js_sub (Finite b) (Finite a)")
  case NaN
  then show ?thesis by simp
next
  case NegInfinity
  then show ?thesis by simp
next
  case (Finite h)
  show ?thesis
  proof (cases "0 < h")
    case True
    with assms have "0 \<le> t / h" by simp
    from fl_nonneg [OF this] True Finite show ?thesis by auto
  next
    case False
    with Finite show ?thesis by simp
  qed
next
  case Infinity
  then show ?thesis by simp
qed

lemma scaleY_finite:
  "\<exists>s. Math_min (Finite 1)
         (if js_lt (Finite 0) (heightOf sts) then js_div targetH (heightOf sts) else Finite 1)
       = Finite s"
proof -
  have "(0::real) < 3602879701896397 / 8796093022208" by simp
  from ratio_ok [OF this] show ?thesis
    unfolding heightOf_def target_values by (intro Math_min_one) blast+
qed

lemma scaleX_finite:
  "\<exists>s. Math_min
         (if js_lt (Finite 0) (widthOf sts) then js_div targetW (widthOf sts) else Finite 1)
         (Finite 1)
       = Finite s"
proof -
  have "(0::real) < 2026619832316723 / 4398046511104" by simp
  from ratio_ok [OF this] show ?thesis
    unfolding widthOf_def target_values by (intro Math_min_one') blast+
qed

lemma Min_const: "sts \<noteq> [] \<Longrightarrow> \<forall>p\<in>set sts. f p = a \<Longrightarrow> f ` set sts = {a}"
  by (cases sts) auto

text \<open>
  Claim C7. For a non-empty list of points with binary64 coordinates and a canvas
  available, the sketch is returned as a raster, and:
  if all points share their x (width 0), every line point and node has the x of the
  target centre, and its y is the centre's plus the offset from the middle of the
  bounding box times \<open>Math.min(1, scaleY)\<close>: the ratio of the width is 1 and nothing
  is divided by the width;
  symmetrically if all points share their y (height 0);
  if all points coincide, every line point and node is exactly the target centre.
\<close>

theorem degenerate_scale_is_one:
  assumes "sts \<noteq> []" "has_document env" "has_context2d env"
    and "\<forall>p\<in>set sts. binary64 (x p) \<and> binary64 (y p)"
  shows "((\<forall>p\<in>set sts. x p = a) \<longrightarrow>
            marks (callsOf (createConstellationSketch env sts))
            = map (\<lambda>p. (targetCenterX,
                         js_add targetCenterY
                           (js_mul (js_sub (Finite (y p))
                                      (js_add (Finite (Min (y ` set sts)))
                                              (js_div (heightOf sts) (Finite 2))))
                                   (Math_min (Finite 1)
                                      (if js_lt (Finite 0) (heightOf sts)
                                       then js_div targetH (heightOf sts) else Finite 1)))))
                  (sts @ sts))
       \<and> ((\<forall>p\<in>set sts. y p = b) \<longrightarrow>
            marks (callsOf (createConstellationSketch env sts))
            = map (\<lambda>p. (js_add targetCenterX
                           (js_mul (js_sub (Finite (x p))
                                      (js_add (Finite (Min (x ` set sts)))
                                              (js_div (widthOf sts) (Finite 2))))
                                   (Math_min
                                      (if js_lt (Finite 0) (widthOf sts)
                                       then js_div targetW (widthOf sts) else Finite 1)
                                      (Finite 1))),
                         targetCenterY))
                  (sts @ sts))
       \<and> ((\<forall>p\<in>set sts. x p = a \<and> y p = b) \<longrightarrow>
            createConstellationSketch env sts
              = PNG 768 1024 (callsOf (createConstellationSketch env sts))
            \<and> marks (callsOf (createConstellationSketch env sts))
              = replicate (2 * length sts) (targetCenterX, targetCenterY))
       \<and> createConstellationSketch env sts
           = PNG 768 1024 (callsOf (createConstellationSketch env sts))
       \<and> targetCenterX = Finite (768 / 2)"
proof -
  note sk = sketch_marks [OF assms(1,2,3)]
  have sameX: "marks (callsOf (createConstellationSketch env sts))
            = map (\<lambda>p. (targetCenterX,
                         js_add targetCenterY
                           (js_mul (js_sub (Finite (y p))
                                      (js_add (Finite (Min (y ` set sts)))
                                              (js_div (heightOf sts) (Finite 2))))
                                   (Math_min (Finite 1)
                                      (if js_lt (Finite 0) (heightOf sts)
                                       then js_div targetH (heightOf sts) else Finite 1)))))
                  (sts @ sts)"
    if same: "\<forall>p\<in>set sts. x p = a"
  proof -
    from Min_const [OF assms(1) same] have img: "x ` set sts = {a}" .
    from assms(1,4) same have ba: "binary64 a" by (cases sts) auto
    have w: "widthOf sts = Finite 0" by (simp add: widthOf_def img sub_self)
    obtain s where s: "Math_min (Finite 1)
         (if js_lt (Finite 0) (heightOf sts) then js_div targetH (heightOf sts) else Finite 1)
       = Finite s"
      using scaleY_finite by blast
    have sc: "scaleOf (Finite 0) (heightOf sts) = Finite s"
      by (simp add: scaleOf_def s Let_def)
    have "drawXY (Finite (Min (x ` set sts))) (Finite (Min (y ` set sts)))
              (widthOf sts) (heightOf sts) (scaleOf (widthOf sts) (heightOf sts)) p
          = (targetCenterX,
             js_add targetCenterY
               (js_mul (js_sub (Finite (y p))
                          (js_add (Finite (Min (y ` set sts)))
                                  (js_div (heightOf sts) (Finite 2))))
                       (Math_min (Finite 1)
                          (if js_lt (Finite 0) (heightOf sts)
                           then js_div targetH (heightOf sts) else Finite 1))))"
      if "p \<in> set (sts @ sts)" for p
    proof -
      from that same have "x p = a" by auto
      then show ?thesis
        by (simp add: drawXY_def Let_def img w half_zero ba [unfolded binary64_def] sub_self sc
            mul_zero centre_plus_zero s fl_zero)
    qed
    with sk show ?thesis by simp
  qed
  have sameY: "marks (callsOf (createConstellationSketch env sts))
            = map (\<lambda>p. (js_add targetCenterX
                           (js_mul (js_sub (Finite (x p))
                                      (js_add (Finite (Min (x ` set sts)))
                                              (js_div (widthOf sts) (Finite 2))))
                                   (Math_min
                                      (if js_lt (Finite 0) (widthOf sts)
                                       then js_div targetW (widthOf sts) else Finite 1)
                                      (Finite 1))),
                         targetCenterY))
                  (sts @ sts)"
    if same: "\<forall>p\<in>set sts. y p = b"
  proof -
    from Min_const [OF assms(1) same] have img: "y ` set sts = {b}" .
    from assms(1,4) same have bb: "binary64 b" by (cases sts) auto
    have h: "heightOf sts = Finite 0" by (simp add: heightOf_def img sub_self)
    obtain s where s: "Math_min
         (if js_lt (Finite 0) (widthOf sts) then js_div targetW (widthOf sts) else Finite 1)
         (Finite 1)
       = Finite s"
      using scaleX_finite by blast
    have sc: "scaleOf (widthOf sts) (Finite 0) = Finite s"
      by (simp add: scaleOf_def s Let_def)
    have "drawXY (Finite (Min (x ` set sts))) (Finite (Min (y ` set sts)))
              (widthOf sts) (heightOf sts) (scaleOf (widthOf sts) (heightOf sts)) p
          = (js_add targetCenterX
               (js_mul (js_sub (Finite (x p))
                          (js_add (Finite (Min (x ` set sts)))
                                  (js_div (widthOf sts) (Finite 2))))
                       (Math_min
                          (if js_lt (Finite 0) (widthOf sts)
                           then js_div targetW (widthOf sts) else Finite 1)
                          (Finite 1))),
             targetCenterY)"
      if "p \<in> set (sts @ sts)" for p
    proof -
      from that same have "y p = b" by auto
      then show ?thesis
        by (simp add: drawXY_def Let_def img h half_zero bb [unfolded binary64_def] sub_self sc
            mul_zero centre_plus_zero s fl_zero)
    qed
    with sk show ?thesis by simp
  qed
  have both: "createConstellationSketch env sts
              = PNG 768 1024 (callsOf (createConstellationSketch env sts))
            \<and> marks (callsOf (createConstellationSketch env sts))
              = replicate (2 * length sts) (targetCenterX, targetCenterY)"
    if same: "\<forall>p\<in>set sts. x p = a \<and> y p = b"
  proof -
    from same have sx: "\<forall>p\<in>set sts. x p = a" and sy: "\<forall>p\<in>set sts. y p = b" by auto
    from Min_const [OF assms(1) sx] have imgx: "x ` set sts = {a}" .
    from Min_const [OF assms(1) sy] have imgy: "y ` set sts = {b}" .
    from assms(1,4) sx have ba: "binary64 a" by (cases sts) auto
    from assms(1,4) sy have bb: "binary64 b" by (cases sts) auto
    have sc: "scaleOf (Finite 0) (Finite 0) = Finite 1"
      by (simp add: scaleOf_def Let_def Math_min_def)
    have "drawXY (Finite (Min (x ` set sts))) (Finite (Min (y ` set sts)))
              (widthOf sts) (heightOf sts) (scaleOf (widthOf sts) (heightOf sts)) p
          = (targetCenterX, targetCenterY)"
      if "p \<in> set (sts @ sts)" for p
    proof -
      from that sx sy have "x p = a" "y p = b" by auto
      then show ?thesis
        by (simp add: drawXY_def Let_def imgx imgy widthOf_def heightOf_def sub_self
            ba [unfolded binary64_def] bb [unfolded binary64_def] sc mul_zero
            centre_plus_zero fl_zero)
    qed
    then have "\<forall>p\<in>set (sts @ sts).
        drawXY (Finite (Min (x ` set sts))) (Finite (Min (y ` set sts)))
              (widthOf sts) (heightOf sts) (scaleOf (widthOf sts) (heightOf sts)) p
          = (targetCenterX, targetCenterY)"
      by blast
    from map_const [OF this] sk show ?thesis by simp
  qed
  have "targetCenterX = Finite (768 / 2)" by (simp add: target_values)
  with sameX sameY both sk show ?thesis by blast
qed

lemma binary64_examples: "binary64 10" "binary64 200"
  by (simp_all add: binary64_def fl_eval)

theorem degenerate_scale_is_one_witness:
  "[starA, starD] \<noteq> [] \<and> has_document browser \<and> has_context2d browser
   \<and> binary64 10 \<and> binary64 200
   \<and> marks (callsOf (createConstellationSketch browser [starA, starD]))
     = [(Finite 384, Finite (2316890902049587 / 8796093022208)),
        (Finite 384, Finite (3988148576269107 / 8796093022208)),
        (Finite 384, Finite (2316890902049587 / 8796093022208)),
        (Finite 384, Finite (3988148576269107 / 8796093022208))]
   \<and> marks (callsOf (createConstellationSketch browser [starA, starA, starA, starA, starA]))
     = replicate 10 (Finite 384, Finite (3152519739159347 / 8796093022208))"
proof -
  have env: "has_document browser" "has_context2d browser" by (simp_all add: browser_def)
  have AD: "\<forall>p\<in>set [starA, starD]. binary64 (x p) \<and> binary64 (y p)"
    using binary64_examples by (simp add: starA_def starD_def)
  have AA: "\<forall>p\<in>set [starA, starA, starA, starA, starA]. binary64 (x p) \<and> binary64 (y p)"
    using binary64_examples by (simp add: starA_def)
  have co: "x starA = 10" "y starA = 10" "x starD = 10" "y starD = 200"
    by (simp_all add: starA_def starD_def)
  have hAD: "heightOf [starA, starD] = Finite 190"
    by (simp add: heightOf_def co js_sub_def fl_eval)
  have minY: "Min (y ` set [starA, starD]) = 10" by (simp add: co)
  from degenerate_scale_is_one [where sts = "[starA, starD]" and a = 10 and b = 10,
      OF _ env AD, THEN conjunct1]
  have "marks (callsOf (createConstellationSketch browser [starA, starD]))
     = [(Finite 384, Finite (2316890902049587 / 8796093022208)),
        (Finite 384, Finite (3988148576269107 / 8796093022208)),
        (Finite 384, Finite (2316890902049587 / 8796093022208)),
        (Finite 384, Finite (3988148576269107 / 8796093022208))]"
    by (simp add: hAD minY co target_values Math_min_def js_sub_def fl_eval)
  moreover
  from degenerate_scale_is_one [where sts = "[starA, starA, starA, starA, starA]"
        and a = 10 and b = 10, OF _ env AA, THEN conjunct2, THEN conjunct2, THEN conjunct1]
  have "marks (callsOf (createConstellationSketch browser [starA, starA, starA, starA, starA]))
     = replicate 10 (Finite 384, Finite (3152519739159347 / 8796093022208))"
    by (simp add: co target_values)
  ultimately show ?thesis using env binary64_examples by simp
qed

text \<open>
  Claim C9. On the empty list the sketch has no line point and no node; when a canvas
  is available it is the 768 by 1024 raster on which only the black background was
  filled.
\<close>

theorem empty_sketch_is_blank:
  "marks (callsOf (createConstellationSketch env ([] :: 'a point_scheme list))) = []
   \<and> (has_document env \<and> has_context2d env \<longrightarrow>
        createConstellationSketch env ([] :: 'a point_scheme list)
        = PNG 768 1024
            [fillStyle ''#000000'', fillRect (Finite 0) (Finite 0) (Finite 768) (Finite 1024)])"
  by (simp add: createConstellationSketch_def background_def canvas_width_def canvas_height_def
      marks_Nil marks_Cons)

theorem empty_sketch_is_blank_witness:
  "has_document browser \<and> has_context2d browser
   \<and> createConstellationSketch browser ([] :: star list)
     = PNG 768 1024
         [fillStyle ''#000000'', fillRect (Finite 0) (Finite 0) (Finite 768) (Finite 1024)]"
  using empty_sketch_is_blank [where ?'a = "unit star_ext" and env = browser]
  by (simp add: browser_def)

lemma near_box:
  "boundingBox [nearP, nearQ]
   = (Finite 1000, Finite (8796093022208001 / 8796093022208),
      Finite 1000, Finite (8796093022208001 / 8796093022208))"
  by (simp add: boundingBox_def nearP_def nearQ_def Math_min_def Math_max_def)

lemma near_width:
  "js_sub (Finite (8796093022208001 / 8796093022208)) (Finite 1000) = Finite (1 / 8796093022208)"
  by (simp add: js_sub_def fl_eval)

lemma near_scale:
  "scaleOf (Finite (1 / 8796093022208)) (Finite (1 / 8796093022208)) = Finite 3602879701896397"
  by (simp add: scaleOf_def Let_def target_values Math_min_def fl_eval)

lemma near_P:
  "drawXY (Finite 1000) (Finite 1000) (Finite (1 / 8796093022208)) (Finite (1 / 8796093022208))
     (Finite 3602879701896397) nearP
   = (Finite 384, Finite (3152519739159347 / 8796093022208))"
  by (simp add: drawXY_def Let_def nearP_def target_values js_sub_def fl_eval)

lemma near_Q:
  "drawXY (Finite 1000) (Finite 1000) (Finite (1 / 8796093022208)) (Finite (1 / 8796093022208))
     (Finite 3602879701896397) nearQ
   = (Finite (6980579422424269 / 8796093022208), Finite 768)"
  by (simp add: drawXY_def Let_def nearQ_def target_values js_sub_def fl_eval)

text \<open>
  Claim C1 fails on the code. For the two points (1000, 1000) and
  (1000 + 2^-43, 1000 + 2^-43), which are adjacent binary64 values, the middle of
  the bounding box rounds to the first point, and the second is drawn at
  (793.6, 768): outside the target region, whose x ends at 614.4 and whose y ends at
  563.2, and right of the canvas, which is 768 wide.
\<close>

theorem sketch_leaves_target:
  "marks (callsOf (createConstellationSketch browser [nearP, nearQ]))
   = [(Finite 384, Finite (3152519739159347 / 8796093022208)),
      (Finite (6980579422424269 / 8796093022208), Finite 768),
      (Finite 384, Finite (3152519739159347 / 8796093022208)),
      (Finite (6980579422424269 / 8796093022208), Finite 768)]
   \<and> \<not> inTarget (Finite (6980579422424269 / 8796093022208), Finite 768)
   \<and> binary64 (1000 + 1 / 2 ^ 43)"
proof -
  have "marks (callsOf (createConstellationSketch browser [nearP, nearQ]))
   = [(Finite 384, Finite (3152519739159347 / 8796093022208)),
      (Finite (6980579422424269 / 8796093022208), Finite 768),
      (Finite 384, Finite (3152519739159347 / 8796093022208)),
      (Finite (6980579422424269 / 8796093022208), Finite 768)]"
    by (simp add: createConstellationSketch_def browser_def near_box near_width near_scale
        near_P near_Q Let_def marks_append marks_drawLines marks_drawNodes marks_background
        marks_Nil marks_Cons)
  moreover have "\<not> inTarget (Finite (6980579422424269 / 8796093022208), Finite 768)"
    by simp
  moreover have "binary64 (1000 + 1 / 2 ^ 43)"
    by (simp add: binary64_def fl_eval)
  ultimately show ?thesis by blast
qed

section \<open>The metadata service\<close>

lemma normalizeCoord_bound:
  assumes "0 < dimension" "0 \<le> v" "v \<le> dimension"
  shows "\<exists>n. normalizeCoord v dimension = Finite (of_int n) \<and> 0 \<le> n \<and> n \<le> 100
           \<and> \<bar>of_int n - v / dimension * 100\<bar> \<le> 1 / 2 + 1 / 2 ^ 45"
proof -
  define t where "t = v / dimension"
  from assms have t: "0 \<le> t" "t \<le> 1" by (simp_all add: t_def)
  then have "\<bar>t\<bar> < 2 powi (0 + 1)" by simp
  from fl_abs_error [OF this] obtain u where
    u: "fl t = Finite u" and eu: "\<bar>u - t\<bar> \<le> 2 powi (0 - 53)" by auto
  from eu have eu': "\<bar>u - t\<bar> \<le> 1 / 2 ^ 53" by (simp add: power_int_minus field_simps)
  with t have "\<bar>u * 100\<bar> < 128" by (simp add: abs_if split: if_splits)
  then have "\<bar>u * 100\<bar> < 2 powi (6 + 1)" by simp
  from fl_abs_error [OF this] obtain w where
    w: "fl (u * 100) = Finite w" and ew: "\<bar>w - u * 100\<bar> \<le> 2 powi (6 - 53)" by auto
  from ew have ew': "\<bar>w - u * 100\<bar> \<le> 1 / 2 ^ 47" by (simp add: power_int_minus field_simps)
  have m: "\<bar>100 * (u - t)\<bar> = 100 * \<bar>u - t\<bar>" by (simp only: abs_mult abs_numeral)
  have "w - t * 100 = (w - u * 100) + 100 * (u - t)" by simp
  then have "\<bar>w - t * 100\<bar> = \<bar>(w - u * 100) + 100 * (u - t)\<bar>" by (simp only:)
  also have "\<dots> \<le> \<bar>w - u * 100\<bar> + \<bar>100 * (u - t)\<bar>" by (rule abs_triangle_ineq)
  finally have "\<bar>w - t * 100\<bar> \<le> \<bar>w - u * 100\<bar> + 100 * \<bar>u - t\<bar>" by (simp only: m)
  with eu' ew' have "\<bar>w - t * 100\<bar> \<le> 1 / 2 ^ 47 + 100 * (1 / 2 ^ 53)" by linarith
  also have "\<dots> \<le> 1 / 2 ^ 45" by simp
  finally have e: "\<bar>w - t * 100\<bar> \<le> 1 / 2 ^ 45" .
  define n where "n = \<lfloor>w + 1 / 2\<rfloor>"
  have nw: "\<bar>of_int n - w\<bar> \<le> 1 / 2" unfolding n_def by linarith
  from assms(1) u w have val: "normalizeCoord v dimension = Finite (of_int n)"
    by (simp add: normalizeCoord_def t_def n_def)
  have small: "(1::real) / 2 ^ 45 < 1 / 2" by simp
  from e t small have "- (1 / 2) < w" "w < 100 + 1 / 2" by (simp_all add: abs_if split: if_splits)
  then have "0 \<le> n" "n \<le> 100" unfolding n_def by linarith+
  moreover from nw e have "\<bar>of_int n - t * 100\<bar> \<le> 1 / 2 + 1 / 2 ^ 45" by linarith
  ultimately show ?thesis using val unfolding t_def by blast
qed

text \<open>
  Claim C8, amended. For a viewport of positive width and height, the coordinates handed
  to the metadata collaborator are, for each selected point, \<open>Math.round\<close> of the
  binary64 product of the binary64 quotient x / width (y / height) by 100, and the
  request the collaborator answers is the one carrying exactly these. For a point inside
  the viewport each is an integer between 0 and 100 within 1/2 + 2^-45 of the exact
  value of x / width * 100 (y / height * 100).
\<close>

theorem normalized_coordinates:
  assumes "0 < canvasWidth" "0 < canvasHeight"
  shows "normalizeStars sts canvasWidth canvasHeight
           = map (\<lambda>s. (Math_round (js_mul (js_div (Finite (x s)) (Finite canvasWidth))
                                            (Finite 100)),
                        Math_round (js_mul (js_div (Finite (y s)) (Finite canvasHeight))
                                            (Finite 100)))) sts
       \<and> (generateContent
             \<lparr>model = ''gemini-3-flash-preview'',
              coordinates = normalizeStars sts canvasWidth canvasHeight\<rparr>
           = Inr (Some txt) \<and> txt \<noteq> [] \<and> JSON_parse txt = Inr metadata \<longrightarrow>
           generateConstellationMetadata generateContent JSON_parse sts canvasWidth canvasHeight
           = Inr metadata)
       \<and> (\<forall>s\<in>set sts.
             (0 \<le> x s \<and> x s \<le> canvasWidth \<longrightarrow>
                (\<exists>n. normalizeCoord (x s) canvasWidth = Finite (of_int n) \<and> 0 \<le> n \<and> n \<le> 100
                   \<and> \<bar>of_int n - x s / canvasWidth * 100\<bar> \<le> 1 / 2 + 1 / 2 ^ 45))
             \<and> (0 \<le> y s \<and> y s \<le> canvasHeight \<longrightarrow>
                (\<exists>n. normalizeCoord (y s) canvasHeight = Finite (of_int n) \<and> 0 \<le> n \<and> n \<le> 100
                   \<and> \<bar>of_int n - y s / canvasHeight * 100\<bar> \<le> 1 / 2 + 1 / 2 ^ 45)))"
proof -
  have n: "normalizeStars sts canvasWidth canvasHeight
           = map (\<lambda>s. (Math_round (js_mul (js_div (Finite (x s)) (Finite canvasWidth))
                                            (Finite 100)),
                        Math_round (js_mul (js_div (Finite (y s)) (Finite canvasHeight))
                                            (Finite 100)))) sts"
    by (simp add: normalizeStars_def normalizeCoord_def)
  have sent: "generateConstellationMetadata generateContent JSON_parse sts canvasWidth canvasHeight
           = Inr metadata"
    if "generateContent
             \<lparr>model = ''gemini-3-flash-preview'',
              coordinates = normalizeStars sts canvasWidth canvasHeight\<rparr>
           = Inr (Some txt)" "txt \<noteq> []" "JSON_parse txt = Inr metadata"
    using that by (cases metadata) (simp_all add: generateConstellationMetadata_def Let_def)
  from n sent normalizeCoord_bound [OF assms(1)] normalizeCoord_bound [OF assms(2)]
  show ?thesis by blast
qed

lemma norm_examples:
  "normalizeCoord 10 1000 = Finite 1" "normalizeCoord 10 800 = Finite 1"
  "normalizeCoord 193 1000 = Finite 19" "normalizeCoord 254 800 = Finite 32"
  by (simp_all add: normalizeCoord_def fl_eval)

theorem normalized_coordinates_witness:
  "(0::real) < 1000 \<and> (0::real) < 800
   \<and> normalizeStars [starA, starB] 1000 800 = [(Finite 1, Finite 1), (Finite 19, Finite 32)]"
  using normalized_coordinates [where sts = "[starA, starB]" and canvasWidth = 1000
      and canvasHeight = 800] norm_examples
  by (simp add: starA_def starB_def normalizeCoord_def)

text \<open>
  Claim C8, as stated with the exact quotient, fails: for x = 145 in a viewport of width
  1000 the code sends 14 where round (145 / 1000 * 100) is 15, and for y = 460 in a
  height of 800 it sends 57 where the exact formula gives 58.
\<close>

theorem normalized_differs_from_exact:
  "normalizeCoord 145 1000 = Finite 14 \<and> round (145 / 1000 * 100 :: real) = 15
   \<and> normalizeCoord 460 800 = Finite 57 \<and> round (460 / 800 * 100 :: real) = 58"
  by (simp add: normalizeCoord_def fl_eval round_def)

section \<open>The orchestrator\<close>

lemma metadata_Inr:
  "\<exists>m. generateConstellationMetadata generateContent JSON_parse sts cw ch = Inr m"
  by (simp add: generateConstellationMetadata_def Let_def split: sum.splits option.splits)

lemma handle_alert:
  "snd (handleStarsSelected generateMetadata generateImage iw ih sts st) \<noteq> [] \<Longrightarrow>
   (\<exists>e. generateMetadata sts iw ih = Inl e)
   \<or> generateMetadata sts iw ih = Inr None
   \<or> (\<exists>m e. generateMetadata sts iw ih = Inr (Some m)
         \<and> generateImage (visualPrompt m) sts = Inl e)"
  by (auto simp: handleStarsSelected_def Let_def split: sum.splits option.splits)

text \<open>
  Claim C10, as stated, fails in its last part: when the remote returns the text
  \<open>null\<close>, the metadata promise resolves to \<open>null\<close>, and the orchestrator reaches
  its catch branch (phase Intro, one alert) although the image service would succeed; it
  is never called.
\<close>

theorem metadata_null_reaches_catch:
  "generateConstellationMetadata (\<lambda>r. Inr (Some ''null'')) parseNull
     [starA, starA, starA, starA, starA] 1000 800 = Inr None
   \<and> map phase (fst (handleStarsSelected
         (generateConstellationMetadata (\<lambda>r. Inr (Some ''null'')) parseNull)
         (\<lambda>prompt sts. Inr ''image'') 1000 800
         [starA, starA, starA, starA, starA] (startJourney initial_app)))
     = [GENERATING_METADATA, GENERATING_IMAGE, INTRO]
   \<and> snd (handleStarsSelected
         (generateConstellationMetadata (\<lambda>r. Inr (Some ''null'')) parseNull)
         (\<lambda>prompt sts. Inr ''image'') 1000 800
         [starA, starA, starA, starA, starA] (startJourney initial_app))
     = [cloudy]"
  by (simp add: handleStarsSelected_def generateConstellationMetadata_def parseNull_def Let_def)

text \<open>
  Claim C10, amended. The promise returned by generateConstellationMetadata never
  rejects. When the remote call rejects, returns no text or an empty text, or the text
  does not parse, the result is the fixed fallback metadata. Hence, with this service, an
  alert of the orchestrator (its catch branch) means that the metadata resolved to
  \<open>null\<close>, or that metadata were produced and image generation failed.
\<close>

theorem metadata_never_rejects:
  "(\<exists>m. generateConstellationMetadata generateContent JSON_parse sts cw ch = Inr m)
   \<and> ((generateContent \<lparr>model = ''gemini-3-flash-preview'',
                         coordinates = normalizeStars sts cw ch\<rparr> = Inl e
        \<or> generateContent \<lparr>model = ''gemini-3-flash-preview'',
                            coordinates = normalizeStars sts cw ch\<rparr> = Inr None
        \<or> generateContent \<lparr>model = ''gemini-3-flash-preview'',
                            coordinates = normalizeStars sts cw ch\<rparr> = Inr (Some [])
        \<or> (generateContent \<lparr>model = ''gemini-3-flash-preview'',
                             coordinates = normalizeStars sts cw ch\<rparr> = Inr (Some txt)
            \<and> JSON_parse txt = Inl e2)) \<longrightarrow>
       generateConstellationMetadata generateContent JSON_parse sts cw ch
       = Inr (Some \<lparr>name = ''The Unseen Path'',
              horoscope = ''Your 2026 is a canvas waiting for your own light to guide the way.'',
              visualPrompt = ''A glowing mystic constellation on a dark blue card, gold filigree borders, holographic style.''\<rparr>))
   \<and> (snd (handleStarsSelected (generateConstellationMetadata generateContent JSON_parse)
               generateImage cw ch sts st) \<noteq> [] \<longrightarrow>
        generateConstellationMetadata generateContent JSON_parse sts cw ch = Inr None
        \<or> (\<exists>m e'. generateConstellationMetadata generateContent JSON_parse sts cw ch
                     = Inr (Some m)
              \<and> generateImage (visualPrompt m) sts = Inl e'))"
proof -
  have total: "\<exists>m. generateConstellationMetadata generateContent JSON_parse sts cw ch = Inr m"
    by (rule metadata_Inr)
  have fb: "generateConstellationMetadata generateContent JSON_parse sts cw ch
       = Inr (Some \<lparr>name = ''The Unseen Path'',
              horoscope = ''Your 2026 is a canvas waiting for your own light to guide the way.'',
              visualPrompt = ''A glowing mystic constellation on a dark blue card, gold filigree borders, holographic style.''\<rparr>)"
    if "generateContent \<lparr>model = ''gemini-3-flash-preview'',
                         coordinates = normalizeStars sts cw ch\<rparr> = Inl e
        \<or> generateContent \<lparr>model = ''gemini-3-flash-preview'',
                            coordinates = normalizeStars sts cw ch\<rparr> = Inr None
        \<or> generateContent \<lparr>model = ''gemini-3-flash-preview'',
                            coordinates = normalizeStars sts cw ch\<rparr> = Inr (Some [])
        \<or> (generateContent \<lparr>model = ''gemini-3-flash-preview'',
                             coordinates = normalizeStars sts cw ch\<rparr> = Inr (Some txt)
            \<and> JSON_parse txt = Inl e2)"
    using that
    by (auto simp: generateConstellationMetadata_def Let_def fallbackMetadata_def)
  have catch: "generateConstellationMetadata generateContent JSON_parse sts cw ch = Inr None
        \<or> (\<exists>m e'. generateConstellationMetadata generateContent JSON_parse sts cw ch
                     = Inr (Some m)
              \<and> generateImage (visualPrompt m) sts = Inl e')"
    if "snd (handleStarsSelected (generateConstellationMetadata generateContent JSON_parse)
               generateImage cw ch sts st) \<noteq> []"
    using handle_alert [OF that] total by auto
  from total fb catch show ?thesis by blast
qed

theorem metadata_never_rejects_witness:
  "generateConstellationMetadata (\<lambda>r. Inl ApiError) (\<lambda>t. Inl SyntaxError)
     [starA, starA, starA, starA, starA] 1000 800 = Inr (Some fallbackMetadata)
   \<and> snd (handleStarsSelected
            (generateConstellationMetadata (\<lambda>r. Inl ApiError) (\<lambda>t. Inl SyntaxError))
            (generateCardImage (\<lambda>r. Inl ApiError) browser) 1000 800
            [starA, starA, starA, starA, starA] (startJourney initial_app)) = [cloudy]
   \<and> generateCardImage (\<lambda>r. Inl ApiError) browser (visualPrompt fallbackMetadata)
        [starA, starA, starA, starA, starA] = Inl ApiError"
  using metadata_never_rejects
    [where generateContent = "\<lambda>r. Inl ApiError" and JSON_parse = "\<lambda>t. Inl SyntaxError"
       and sts = "[starA, starA, starA, starA, starA]" and cw = 1000 and ch = 800
       and e = ApiError and generateImage = "generateCardImage (\<lambda>r. Inl ApiError) browser"
       and st = "startJourney initial_app"]
  by (auto simp: fallbackMetadata_def handleStarsSelected_def generateCardImage_def Let_def)

text \<open>
  Claim C6. An edit requested in phase Result, with an image present, passes through
  Editing; if the edit fails the final state is the state before the request (phase
  Result, image and metadata untouched) and the failure is notified; if it succeeds the
  final state differs from the state before only in the image, which is the new one.
\<close>

theorem edit_failure_restores_result:
  assumes "phase st = RESULT" "generatedImage st = Some img" "img \<noteq> []"
  shows "(editImage img instruction = Inl e \<longrightarrow>
            handleEdit editImage instruction st = ([st\<lparr>phase := EDITING\<rparr>, st], [resisted]))
       \<and> (editImage img instruction = Inr newImage \<longrightarrow>
            handleEdit editImage instruction st
            = ([st\<lparr>phase := EDITING\<rparr>, st\<lparr>generatedImage := Some newImage\<rparr>], []))"
  using assms by (cases st) (simp add: handleEdit_def truthy_def Let_def)

theorem edit_failure_restores_result_witness:
  "phase resultState = RESULT \<and> generatedImage resultState = Some ''abc'' \<and> ''abc'' \<noteq> []
   \<and> handleEdit (editCardImage (\<lambda>r. Inl ApiError)) ''glitch'' resultState
     = ([resultState\<lparr>phase := EDITING\<rparr>, resultState], [resisted])
   \<and> handleEdit (editCardImage (\<lambda>r. Inr (Some [Some (Some [\<lparr>inlineData = Some ''xyz'', text_part = None\<rparr>])])))
        ''glitch'' resultState
     = ([resultState\<lparr>phase := EDITING\<rparr>, resultState\<lparr>generatedImage := Some ''xyz''\<rparr>], [])"
  using edit_failure_restores_result
    [where st = resultState and img = "''abc''" and e = ApiError
       and editImage = "editCardImage (\<lambda>r. Inl ApiError)" and instruction = "''glitch''"]
    edit_failure_restores_result
    [where st = resultState and img = "''abc''" and newImage = "''xyz''"
       and editImage = "editCardImage (\<lambda>r. Inr (Some [Some (Some [\<lparr>inlineData = Some ''xyz'', text_part = None\<rparr>])]))"
       and instruction = "''glitch''"]
  by (simp add: resultState_def editCardImage_def extractImage_def truthy_def)

text \<open>
  Claim C2, amended. If the metadata operation rejects, the orchestrator ends in phase
  Intro with metadata and image as they were. If the image operation fails, it ends in
  phase Intro with the image as it was and with the metadata that the metadata step
  stored (they are not cleared). In both cases the failure is notified once and in no
  state of the run is the card shown.
\<close>

theorem generation_failure_returns_to_intro:
  "(generateMetadata sts iw ih = Inl e \<longrightarrow>
      handleStarsSelected generateMetadata generateImage iw ih sts st
      = ([st\<lparr>selectedStars_app := sts, phase := GENERATING_METADATA\<rparr>,
          st\<lparr>selectedStars_app := sts, phase := INTRO\<rparr>], [cloudy]))
   \<and> (generateMetadata sts iw ih = Inr (Some m) \<and> generateImage (visualPrompt m) sts = Inl e' \<longrightarrow>
      handleStarsSelected generateMetadata generateImage iw ih sts st
      = ([st\<lparr>selectedStars_app := sts, phase := GENERATING_METADATA\<rparr>,
          st\<lparr>selectedStars_app := sts, constellationData := Some m,
             phase := GENERATING_IMAGE\<rparr>,
          st\<lparr>selectedStars_app := sts, constellationData := Some m, phase := INTRO\<rparr>],
         [cloudy]))
   \<and> (snd (handleStarsSelected generateMetadata generateImage iw ih sts st) \<noteq> [] \<longrightarrow>
        phase (last (fst (handleStarsSelected generateMetadata generateImage iw ih sts st)))
        = INTRO
        \<and> generatedImage
            (last (fst (handleStarsSelected generateMetadata generateImage iw ih sts st)))
          = generatedImage st
        \<and> (\<forall>s\<in>set (fst (handleStarsSelected generateMetadata generateImage iw ih sts st)).
              \<not> showsCard s))"
  by (cases st)
     (auto simp: handleStarsSelected_def Let_def showsCard_def split: sum.splits option.splits)

theorem generation_failure_returns_to_intro_witness:
  "map phase (fst (handleStarsSelected (\<lambda>s w h. Inl ApiError)
       (generateCardImage (\<lambda>r. Inl ApiError) browser) 1000 800
       [starA, starA, starA, starA, starA] (startJourney initial_app)))
     = [GENERATING_METADATA, INTRO]
   \<and> handleStarsSelected (\<lambda>s w h. Inr (Some fallbackMetadata))
       (generateCardImage (\<lambda>r. Inr None) browser) 1000 800
       [starA, starA, starA, starA, starA] (startJourney initial_app)
     = ([(startJourney initial_app)
           \<lparr>selectedStars_app := [starA, starA, starA, starA, starA],
            phase := GENERATING_METADATA\<rparr>,
         (startJourney initial_app)
           \<lparr>selectedStars_app := [starA, starA, starA, starA, starA],
            constellationData := Some fallbackMetadata, phase := GENERATING_IMAGE\<rparr>,
         (startJourney initial_app)
           \<lparr>selectedStars_app := [starA, starA, starA, starA, starA],
            constellationData := Some fallbackMetadata, phase := INTRO\<rparr>], [cloudy])"
  using generation_failure_returns_to_intro
    [where generateMetadata = "\<lambda>s w h. Inl ApiError" and e = ApiError
       and generateImage = "generateCardImage (\<lambda>r. Inl ApiError) browser"
       and iw = 1000 and ih = 800 and sts = "[starA, starA, starA, starA, starA]"
       and st = "startJourney initial_app"]
    generation_failure_returns_to_intro
    [where generateMetadata = "\<lambda>s w h. Inr (Some fallbackMetadata)" and m = fallbackMetadata
       and e' = NoImageData
       and generateImage = "generateCardImage (\<lambda>r. Inr None) browser"
       and iw = 1000 and ih = 800 and sts = "[starA, starA, starA, starA, starA]"
       and st = "startJourney initial_app"]
  by (simp add: generateCardImage_def extractImage_def)

text \<open>
  Claim C2, as stated, fails: with the services of this repository and a remote that
  rejects every call, the failure of the metadata collaborator leads to phase
  GeneratingImage (with the fallback metadata), and after the failure of image
  generation the metadata are still stored.
\<close>

theorem image_failure_keeps_metadata:
  "map phase (fst (handleStarsSelected
       (generateConstellationMetadata (\<lambda>r. Inl ApiError) (\<lambda>t. Inl SyntaxError))
       (generateCardImage (\<lambda>r. Inl ApiError) browser) 1000 800
       [starA, starA, starA, starA, starA] (startJourney initial_app)))
     = [GENERATING_METADATA, GENERATING_IMAGE, INTRO]
   \<and> constellationData (last (fst (handleStarsSelected
       (generateConstellationMetadata (\<lambda>r. Inl ApiError) (\<lambda>t. Inl SyntaxError))
       (generateCardImage (\<lambda>r. Inl ApiError) browser) 1000 800
       [starA, starA, starA, starA, starA] (startJourney initial_app))))
     = Some fallbackMetadata"
  by (simp add: handleStarsSelected_def generateConstellationMetadata_def
      generateCardImage_def Let_def)

end
